theory Spec2Isabelle
  imports Complex_Main
begin

section \<open>The landing assist controller of \<open>landing_assist/script.js\<close>\<close>

text \<open>
  The class \<open>LandingAssistSystem\<close> keeps its state in the fields of one object and in
  the timers it has registered with the browser. Each method, each event listener and
  each timer callback runs to its end before the next one starts, so a run of the
  program is a sequence of handler calls, each taking the state to a new state.

  Numbers. The fields hold JavaScript numbers. They are modelled as \<^typ>\<open>real\<close>, that is
  without the rounding of binary floating point; every field stays finite, because the
  only division whose divisor can be zero is the one of the ETA, whose quotient is never
  stored in a field. That quotient is a \<open>jsnum\<close>, which has the values \<open>Infinity\<close>,
  \<open>-Infinity\<close> and \<open>NaN\<close> that JavaScript gives to a division by zero.

  Randomness. Every call of \<open>Math.random()\<close> is an argument of the handler that makes it,
  a real number \<open>r\<close> with \<open>0 \<le> r < 1\<close>.

  Page. Of the page the model keeps what the handlers write and the properties speak
  of: the \<open>disabled\<close> flag of the three buttons and the three fields of the landing
  information panel. The canvas, the status panel (a rendering of the fields), the
  target marker, the messages and the console are left out. The elements the script
  looks up by id are assumed to exist.
\<close>

subsection \<open>Data\<close>

text \<open>The five texts that \<open>flightStatus\<close> takes: flying, taking off, landing
  automatically, landed, manual mode.\<close>

datatype status = Flying | TakingOff | AutoLanding | Landed | ManualStatus

datatype safety = High | Medium | Low

datatype jsnum = Num real | PosInfinity | NegInfinity | NaN

text \<open>The text of \<open>info-eta\<close>: \<open>Seconds n\<close> is the number \<open>n\<close> followed by \<open>s\<close>, so that
  \<open>Seconds PosInfinity\<close> is the text \<open>Infinitys\<close>; \<open>Dashes\<close> is the text \<open>--\<close>.\<close>

datatype eta_text = Seconds jsnum | Dashes

datatype error = TypeError

datatype 'a outcome = Returned 'a | Threw error 'a

type_synonym point = "real \<times> real"

record LandingAssistSystem =
  selectedTarget :: "point option"
  currentPosition :: point
  altitude :: real
  speed :: real
  battery :: real
  flightStatus :: status
  landingMode :: string
  isLanding :: bool
  isManualMode :: bool
  landingIntervals :: "nat list"
  takeoffTimeouts :: nat
  landBtnDisabled :: bool
  takeoffBtnDisabled :: bool
  cancelBtnDisabled :: bool
  infoCoords :: "(int \<times> int) option"
  infoEta :: eta_text
  infoSafety :: safety

text \<open>
  \<open>landingIntervals\<close> holds one entry for each live interval timer that
  \<open>simulateLanding\<close> has started, oldest first: the value of the variable \<open>step\<close> of
  its closure. \<open>takeoffTimeouts\<close> counts the completion timers of \<open>takeoff\<close> that have
  not fired yet.

  What the page shows before the script writes to it comes from the HTML file, which
  is not part of the sources: it is a parameter of the constructor.
\<close>

record markup =
  landBtn :: bool
  takeoffBtn :: bool
  cancelBtn :: bool
  coordsText :: "(int \<times> int) option"
  etaText :: eta_text
  safetyText :: safety

definition constructor :: "markup \<Rightarrow> LandingAssistSystem" where
  "constructor m =
     \<lparr> selectedTarget = None,
       currentPosition = (400, 300),
       altitude = 120,
       speed = 5.2,
       battery = 85,
       flightStatus = Flying,
       landingMode = ''precision'',
       isLanding = False,
       isManualMode = False,
       landingIntervals = [],
       takeoffTimeouts = 0,
       landBtnDisabled = landBtn m,
       takeoffBtnDisabled = takeoffBtn m,
       cancelBtnDisabled = cancelBtn m,
       infoCoords = coordsText m,
       infoEta = etaText m,
       infoSafety = safetyText m \<rparr>"

subsection \<open>JavaScript arithmetic\<close>

text \<open>The quotient \<open>a / b\<close> of two finite numbers.\<close>

definition js_div :: "real \<Rightarrow> real \<Rightarrow> jsnum" where
  "js_div a b =
     (if b \<noteq> 0 then Num (a / b)
      else if 0 < a then PosInfinity
      else if a < 0 then NegInfinity
      else NaN)"

text \<open>The comparison \<open>n > 0\<close>, false for \<open>NaN\<close>.\<close>

fun js_positive :: "jsnum \<Rightarrow> bool" where
  "js_positive (Num r) = (0 < r)"
| "js_positive PosInfinity = True"
| "js_positive NegInfinity = False"
| "js_positive NaN = False"

text \<open>\<open>Math.round\<close>: the nearest integer, a half rounded up.\<close>

definition round_half_up :: "real \<Rightarrow> int" where
  "round_half_up r = \<lfloor>r + 1 / 2\<rfloor>"

fun Math_round :: "jsnum \<Rightarrow> jsnum" where
  "Math_round (Num r) = Num (of_int (round_half_up r))"
| "Math_round n = n"

definition clamp :: "real \<Rightarrow> real \<Rightarrow> real \<Rightarrow> real" where
  "clamp lo hi v = max lo (min hi v)"

subsection \<open>Methods\<close>

definition distance :: "point \<Rightarrow> point \<Rightarrow> real" where
  "distance t p = sqrt ((fst t - fst p)\<^sup>2 + (snd t - snd p)\<^sup>2)"

definition safetyLevel :: "real \<Rightarrow> safety" where
  "safetyLevel a = (if a < 20 then High else if a < 50 then Medium else Low)"

definition updateLandingInfo :: "LandingAssistSystem \<Rightarrow> LandingAssistSystem" where
  "updateLandingInfo s =
     (let s1 =
        (case selectedTarget s of
           Some t \<Rightarrow>
             (let eta = js_div (distance t (currentPosition s)) (speed s)
              in s\<lparr> infoCoords := Some (round_half_up (fst t), round_half_up (snd t)),
                    infoEta := (if js_positive eta then Seconds (Math_round eta) else Dashes) \<rparr>)
         | None \<Rightarrow> s\<lparr> infoCoords := None, infoEta := Dashes \<rparr>)
      in s1\<lparr> infoSafety := safetyLevel (altitude s) \<rparr>)"

definition selectLandingTarget :: "real \<Rightarrow> real \<Rightarrow> LandingAssistSystem \<Rightarrow> LandingAssistSystem" where
  "selectLandingTarget x y s =
     (updateLandingInfo (s\<lparr> selectedTarget := Some (x, y) \<rparr>))\<lparr> landBtnDisabled := False \<rparr>"

text \<open>The listener of the camera overlay; \<open>x\<close> and \<open>y\<close> are the click's coordinates
  relative to the overlay.\<close>

definition overlayClick :: "real \<Rightarrow> real \<Rightarrow> LandingAssistSystem \<Rightarrow> LandingAssistSystem" where
  "overlayClick x y s =
     (if isManualMode s \<or> isLanding s then s else selectLandingTarget x y s)"

definition takeoff :: "LandingAssistSystem \<Rightarrow> LandingAssistSystem" where
  "takeoff s =
     (if isLanding s then s
      else s\<lparr> flightStatus := TakingOff, takeoffTimeouts := Suc (takeoffTimeouts s) \<rparr>)"

text \<open>The callback that \<open>takeoff\<close> schedules; it fires only while one is pending.\<close>

definition takeoffTimeout :: "LandingAssistSystem \<Rightarrow> LandingAssistSystem" where
  "takeoffTimeout s =
     (if takeoffTimeouts s = 0 then s
      else s\<lparr> takeoffTimeouts := takeoffTimeouts s - 1,
              flightStatus := Flying,
              altitude := 120,
              currentPosition := (400, 300) \<rparr>)"

text \<open>\<open>startLanding\<close> ends by calling \<open>simulateLanding\<close>, which registers a new interval
  timer whose \<open>step\<close> is 0.\<close>

definition startLanding :: "LandingAssistSystem \<Rightarrow> LandingAssistSystem" where
  "startLanding s =
     (if selectedTarget s = None \<or> isLanding s then s
      else s\<lparr> isLanding := True,
              flightStatus := AutoLanding,
              landBtnDisabled := True,
              takeoffBtnDisabled := True,
              cancelBtnDisabled := False,
              landingIntervals := landingIntervals s @ [0] \<rparr>)"

definition completeLanding :: "LandingAssistSystem \<Rightarrow> LandingAssistSystem" where
  "completeLanding s =
     (updateLandingInfo
        (s\<lparr> isLanding := False, flightStatus := Landed, altitude := 0, speed := 0 \<rparr>))
      \<lparr> landBtnDisabled := True,
        takeoffBtnDisabled := False,
        cancelBtnDisabled := True,
        selectedTarget := None \<rparr>"

definition landingSteps :: nat where
  "landingSteps = 100"

definition clearInterval :: "nat \<Rightarrow> nat list \<Rightarrow> nat list" where
  "clearInterval k ts = take k ts @ drop (Suc k) ts"

text \<open>
  The callback of the \<open>k\<close>-th live interval of \<open>simulateLanding\<close>, with the two random
  numbers it draws. Nothing fires when there is no such interval. The callback reads
  \<open>this.selectedTarget.x\<close> after it has written the altitude and the speed: when the
  target is \<open>null\<close> it throws there, and the two writes stay.
\<close>

definition landingTick ::
  "nat \<Rightarrow> real \<Rightarrow> real \<Rightarrow> LandingAssistSystem \<Rightarrow> LandingAssistSystem outcome" where
  "landingTick k rx ry s =
     (if length (landingIntervals s) \<le> k then Returned s
      else
        (let step = Suc (landingIntervals s ! k)
         in if landingSteps \<le> step
            then Returned
                   ((completeLanding s)
                      \<lparr> landingIntervals := clearInterval k (landingIntervals s) \<rparr>)
            else
              (let s1 = s\<lparr> landingIntervals := (landingIntervals s)[k := step],
                           altitude := 120 - real step * 1.2,
                           speed := 5.2 - real step * 0.02 \<rparr>
               in case selectedTarget s1 of
                    None \<Rightarrow> Threw TypeError s1
                  | Some t \<Rightarrow>
                      (let p = currentPosition s1;
                           dx = (fst t - fst p) / real (landingSteps - step);
                           dy = (snd t - snd p) / real (landingSteps - step);
                           s2 = s1\<lparr> currentPosition :=
                                      (fst p + dx + (rx - 0.5) * 2,
                                       snd p + dy + (ry - 0.5) * 2) \<rparr>
                       in Returned (if step mod 10 = 0 then updateLandingInfo s2 else s2)))))"

definition cancelLanding :: "LandingAssistSystem \<Rightarrow> LandingAssistSystem" where
  "cancelLanding s =
     (if \<not> isLanding s then s
      else s\<lparr> isLanding := False,
              flightStatus := Flying,
              landBtnDisabled := (selectedTarget s = None),
              takeoffBtnDisabled := False,
              cancelBtnDisabled := True \<rparr>)"

definition toggleManualMode :: "LandingAssistSystem \<Rightarrow> LandingAssistSystem" where
  "toggleManualMode s =
     (if \<not> isManualMode s
      then s\<lparr> isManualMode := True, flightStatus := ManualStatus \<rparr>
      else s\<lparr> isManualMode := False, flightStatus := Flying \<rparr>)"

text \<open>The listener of the landing mode radio buttons.\<close>

definition landingModeChange :: "string \<Rightarrow> LandingAssistSystem \<Rightarrow> LandingAssistSystem" where
  "landingModeChange v s = updateLandingInfo (s\<lparr> landingMode := v \<rparr>)"

text \<open>The two intervals of \<open>startSimulation\<close>: the drift, every 100 ms, with the four
  random numbers it may draw, and the battery, every 5 s.\<close>

definition driftTick ::
  "real \<Rightarrow> real \<Rightarrow> real \<Rightarrow> real \<Rightarrow> LandingAssistSystem \<Rightarrow> LandingAssistSystem" where
  "driftTick rx ry ra rs s =
     (if isLanding s \<or> isManualMode s then s
      else
        (let p = currentPosition s;
             s1 = s\<lparr> currentPosition :=
                        (clamp 10 790 (fst p + (rx - 0.5) * 0.5),
                         clamp 10 590 (snd p + (ry - 0.5) * 0.5)) \<rparr>
         in if flightStatus s1 = Flying
            then s1\<lparr> altitude := clamp 115 125 (altitude s1 + (ra - 0.5) * 0.2),
                      speed := clamp 4.5 6.0 (speed s1 + (rs - 0.5) * 0.1) \<rparr>
            else s1))"

definition batteryTick :: "LandingAssistSystem \<Rightarrow> LandingAssistSystem" where
  "batteryTick s =
     (if flightStatus s \<noteq> Landed then s\<lparr> battery := max 0 (battery s - 0.01) \<rparr> else s)"

subsection \<open>Runs\<close>

datatype event =
    Click real real
  | TakeoffCmd
  | TakeoffTimeout
  | LandCmd
  | LandingTick nat real real
  | CancelCmd
  | ManualCmd
  | ModeChange string
  | DriftTick real real real real
  | BatteryTick

fun handle :: "event \<Rightarrow> LandingAssistSystem \<Rightarrow> LandingAssistSystem outcome" where
  "handle (Click x y) s = Returned (overlayClick x y s)"
| "handle TakeoffCmd s = Returned (takeoff s)"
| "handle TakeoffTimeout s = Returned (takeoffTimeout s)"
| "handle LandCmd s = Returned (startLanding s)"
| "handle (LandingTick k rx ry) s = landingTick k rx ry s"
| "handle CancelCmd s = Returned (cancelLanding s)"
| "handle ManualCmd s = Returned (toggleManualMode s)"
| "handle (ModeChange v) s = Returned (landingModeChange v s)"
| "handle (DriftTick rx ry ra rs) s = Returned (driftTick rx ry ra rs s)"
| "handle BatteryTick s = Returned (batteryTick s)"

text \<open>An exception that a handler throws ends that handler and nothing else: the
  page goes on from the state the handler has left.\<close>

fun after :: "'a outcome \<Rightarrow> 'a" where
  "after (Returned s) = s"
| "after (Threw e s) = s"

fun threw :: "'a outcome \<Rightarrow> bool" where
  "threw (Returned s) = False"
| "threw (Threw e s) = True"

fun run :: "event list \<Rightarrow> LandingAssistSystem \<Rightarrow> LandingAssistSystem" where
  "run [] s = s"
| "run (e # es) s = run es (after (handle e s))"

text \<open>What \<open>Math.random()\<close> can return.\<close>

definition unit_random :: "real \<Rightarrow> bool" where
  "unit_random r = (0 \<le> r \<and> r < 1)"

text \<open>A page for the examples: landing and cancelling disabled, nothing shown in the
  information panel.\<close>

definition page0 :: markup where
  "page0 = \<lparr> landBtn = True, takeoffBtn = False, cancelBtn = True,
             coordsText = None, etaText = Dashes, safetyText = Low \<rparr>"

text \<open>Two states of a run from that page: the state the constructor leaves, and the
  state once a target has been chosen at \<open>(100, 100)\<close> and the landing started.\<close>

definition fresh :: LandingAssistSystem where
  "fresh = constructor page0"

definition descending :: LandingAssistSystem where
  "descending = run [Click 100 100, LandCmd] fresh"

text \<open>The rectangle to which the drift confines the position.\<close>

definition viewport :: "point \<Rightarrow> bool" where
  "viewport p = (10 \<le> fst p \<and> fst p \<le> 790 \<and> 10 \<le> snd p \<and> snd p \<le> 590)"

text \<open>A run of drift ticks, one for each quadruple of random numbers.\<close>

fun drifts :: "(real \<times> real \<times> real \<times> real) list \<Rightarrow> event list" where
  "drifts [] = []"
| "drifts ((rx, ry, ra, rs) # rs') = DriftTick rx ry ra rs # drifts rs'"

text \<open>What a descent reads and writes, the battery, the target and the live timers.\<close>

definition telemetry ::
  "LandingAssistSystem \<Rightarrow> point \<times> real \<times> real \<times> real \<times> point option \<times> bool \<times> nat list" where
  "telemetry s =
     (currentPosition s, altitude s, speed s, battery s, selectedTarget s, isLanding s,
      landingIntervals s)"

text \<open>A run of ticks of the \<open>k\<close>-th descent timer, one for each pair of random
  numbers; and the state after \<open>startLanding\<close> and such a run of the timer that it
  starts.\<close>

fun ticks :: "nat \<Rightarrow> (real \<times> real) list \<Rightarrow> event list" where
  "ticks k [] = []"
| "ticks k ((rx, ry) # rs) = LandingTick k rx ry # ticks k rs"

definition descent :: "LandingAssistSystem \<Rightarrow> (real \<times> real) list \<Rightarrow> LandingAssistSystem" where
  "descent s rs = run (LandCmd # ticks (length (landingIntervals s)) rs) s"

text \<open>More states of runs from \<open>page0\<close>: a target chosen at \<open>(100, 100)\<close>; a landing
  on it cancelled after one tick without jitter; and the random numbers of a descent
  without jitter.\<close>

definition targeted :: LandingAssistSystem where
  "targeted = run [Click 100 100] fresh"

definition steady :: "(real \<times> real) list" where
  "steady = replicate 100 (1 / 2, 1 / 2)"

definition cancelled :: LandingAssistSystem where
  "cancelled = run [Click 100 100, LandCmd, LandingTick 0 (1 / 2) (1 / 2), CancelCmd] fresh"

section \<open>Properties\<close>

lemmas method_defs = updateLandingInfo_def selectLandingTarget_def overlayClick_def takeoff_def
  takeoffTimeout_def startLanding_def completeLanding_def cancelLanding_def toggleManualMode_def
  landingModeChange_def driftTick_def batteryTick_def landingTick_def

lemmas sample_defs = fresh_def descending_def constructor_def page0_def

lemma fresh_fields:
  "selectedTarget fresh = None" "\<not> isLanding fresh" "\<not> isManualMode fresh"
  "flightStatus fresh = Flying" "battery fresh = 85" "currentPosition fresh = (400, 300)"
  "altitude fresh = 120" "speed fresh = 5.2" "landingIntervals fresh = []"
  "takeoffTimeouts fresh = 0"
  by (simp_all add: sample_defs)

lemma descending_fields:
  "selectedTarget descending = Some (100, 100)" "isLanding descending"
  "\<not> isManualMode descending" "flightStatus descending = AutoLanding"
  "battery descending = 85" "currentPosition descending = (400, 300)"
  "altitude descending = 120" "speed descending = 5.2" "landingIntervals descending = [0]"
  "takeoffTimeouts descending = 0"
  by (simp_all add: sample_defs method_defs Let_def)

subsection \<open>Safety level\<close>

text \<open>
  C4. The safety level that \<open>updateLandingInfo\<close> writes is \<open>high\<close> exactly when the
  altitude is below 20, \<open>medium\<close> exactly when it is at least 20 and below 50, and \<open>low\<close>
  exactly when it is at least 50. So 19.99 gives \<open>high\<close>, 20.00 and 49.99 give
  \<open>medium\<close>, 50.00 gives \<open>low\<close>; and two states with the same altitude get the same
  level, whatever their other fields are.
\<close>

theorem safety_level_thresholds:
  "(infoSafety (updateLandingInfo s) = High \<longleftrightarrow> altitude s < 20) \<and>
   (infoSafety (updateLandingInfo s) = Medium \<longleftrightarrow> 20 \<le> altitude s \<and> altitude s < 50) \<and>
   (infoSafety (updateLandingInfo s) = Low \<longleftrightarrow> 50 \<le> altitude s) \<and>
   infoSafety (updateLandingInfo (s\<lparr>altitude := 19.99\<rparr>)) = High \<and>
   infoSafety (updateLandingInfo (s\<lparr>altitude := 20.00\<rparr>)) = Medium \<and>
   infoSafety (updateLandingInfo (s\<lparr>altitude := 49.99\<rparr>)) = Medium \<and>
   infoSafety (updateLandingInfo (s\<lparr>altitude := 50.00\<rparr>)) = Low \<and>
   infoSafety (updateLandingInfo (s'\<lparr>altitude := altitude s\<rparr>)) = infoSafety (updateLandingInfo s)"
  by (simp add: updateLandingInfo_def safetyLevel_def Let_def split: option.split)

subsection \<open>Commands out of place\<close>

text \<open>
  C5. A command given where it is not legal returns without an exception and leaves
  the whole state as it was, and so the mode, position, altitude, speed, battery and
  target: \<open>startLanding\<close> without a target, \<open>startLanding\<close> during a landing, \<open>takeoff\<close>
  during a landing, \<open>cancelLanding\<close> outside a landing.
\<close>

theorem illegal_commands_are_noops:
  "(selectedTarget s = None \<longrightarrow> handle LandCmd s = Returned s) \<and>
   (isLanding s \<longrightarrow> handle LandCmd s = Returned s) \<and>
   (isLanding s \<longrightarrow> handle TakeoffCmd s = Returned s) \<and>
   (\<not> isLanding s \<longrightarrow> handle CancelCmd s = Returned s)"
  by (simp add: startLanding_def takeoff_def cancelLanding_def)

theorem illegal_commands_are_noops_witness:
  "selectedTarget fresh = None \<and> \<not> isLanding fresh \<and> isLanding descending \<and>
   handle LandCmd fresh = Returned fresh \<and> handle CancelCmd fresh = Returned fresh \<and>
   handle LandCmd descending = Returned descending \<and>
   handle TakeoffCmd descending = Returned descending"
  using illegal_commands_are_noops [of fresh] illegal_commands_are_noops [of descending]
  by (simp only: fresh_fields descending_fields simp_thms)

subsection \<open>Cancelling keeps the target\<close>

text \<open>
  C10. \<open>cancelLanding\<close> never changes the selected target. Issued during a landing, it
  ends the landing and enables the landing button exactly when a target is set; a
  \<open>startLanding\<close> that follows starts a landing exactly when a target is set, and then
  it lands on the target that was kept, with a new descent timer at step 0.
\<close>

theorem cancel_keeps_target:
  "selectedTarget (cancelLanding s) = selectedTarget s \<and>
   (isLanding s \<longrightarrow>
      \<not> isLanding (cancelLanding s) \<and>
      (landBtnDisabled (cancelLanding s) \<longleftrightarrow> selectedTarget s = None) \<and>
      (isLanding (startLanding (cancelLanding s)) \<longleftrightarrow> selectedTarget s \<noteq> None) \<and>
      (selectedTarget s \<noteq> None \<longrightarrow>
         flightStatus (startLanding (cancelLanding s)) = AutoLanding \<and>
         selectedTarget (startLanding (cancelLanding s)) = selectedTarget s \<and>
         landingIntervals (startLanding (cancelLanding s)) = landingIntervals s @ [0]))"
  by (simp add: cancelLanding_def startLanding_def)

theorem cancel_keeps_target_witness:
  "isLanding descending \<and> selectedTarget descending \<noteq> None \<and>
   selectedTarget (cancelLanding descending) = Some (100, 100) \<and>
   \<not> landBtnDisabled (cancelLanding descending) \<and>
   isLanding (startLanding (cancelLanding descending)) \<and>
   flightStatus (startLanding (cancelLanding descending)) = AutoLanding \<and>
   selectedTarget (startLanding (cancelLanding descending)) = Some (100, 100) \<and>
   landingIntervals (startLanding (cancelLanding descending)) = [0, 0]"
  using cancel_keeps_target [of descending]
  by (simp add: descending_fields)

subsection \<open>Battery\<close>

lemma battery_handle:
  "battery (after (handle e s)) = battery s \<or>
   (e = BatteryTick \<and> flightStatus s \<noteq> Landed \<and>
    battery (after (handle e s)) = max 0 (battery s - 0.01))"
  by (cases e) (simp_all add: method_defs Let_def split: option.split)

lemma battery_step:
  assumes "0 \<le> battery s"
  shows "0 \<le> battery (after (handle e s)) \<and> battery (after (handle e s)) \<le> battery s"
  using battery_handle [of e s] assms by auto

lemma battery_run:
  "0 \<le> battery s \<Longrightarrow> 0 \<le> battery (run es s) \<and> battery (run es s) \<le> battery s"
proof (induction es arbitrary: s)
  case Nil
  then show ?case by simp
next
  case (Cons e es)
  from battery_step [OF Cons.prems, of e] Cons.IH [of "after (handle e s)"]
  show ?case by fastforce
qed

lemma run_append: "run (es @ es') s = run es' (run es s)"
  by (induction es arbitrary: s) simp_all

text \<open>
  C9. Along every run from the constructor the battery never rises: after any
  further events \<open>es'\<close> it is at most what it was, and it stays between 0 and 100. The
  battery tick takes 0.01 off, stopping at 0, when the status is not \<open>landed\<close>, and
  leaves the battery alone when it is; no other handler writes the battery.
\<close>

theorem battery_never_increases:
  "0 \<le> battery (run (es @ es') (constructor m)) \<and>
   battery (run (es @ es') (constructor m)) \<le> battery (run es (constructor m)) \<and>
   battery (run es (constructor m)) \<le> 100 \<and>
   battery (batteryTick s) =
     (if flightStatus s = Landed then battery s else max 0 (battery s - 0.01)) \<and>
   battery (batteryTick (run es (constructor m))) \<le> battery (run es (constructor m)) \<and>
   (e = BatteryTick \<or> battery (after (handle e s)) = battery s)"
proof -
  have b0: "0 \<le> battery (constructor m)" "battery (constructor m) \<le> 100"
    by (simp_all add: constructor_def)
  from battery_run [OF b0(1), of es] b0(2)
  have b1: "0 \<le> battery (run es (constructor m))" "battery (run es (constructor m)) \<le> 100"
    by simp_all
  from battery_run [OF b1(1), of es']
  have b2: "0 \<le> battery (run (es @ es') (constructor m))"
    "battery (run (es @ es') (constructor m)) \<le> battery (run es (constructor m))"
    by (simp_all add: run_append)
  have b3: "battery (batteryTick s) =
      (if flightStatus s = Landed then battery s else max 0 (battery s - 0.01))"
    by (simp add: batteryTick_def)
  from battery_step [OF b1(1), of BatteryTick]
  have b4: "battery (batteryTick (run es (constructor m))) \<le> battery (run es (constructor m))"
    by simp
  from battery_handle [of e s]
  have b5: "e = BatteryTick \<or> battery (after (handle e s)) = battery s"
    by blast
  from b1 b2 b3 b4 b5 show ?thesis by blast
qed

subsection \<open>Idle drift\<close>

lemma drift_offset: "unit_random r \<Longrightarrow> \<bar>(r - 0.5) * 0.5\<bar> \<le> 0.5"
  by (simp add: unit_random_def abs_le_iff)

lemma clamp_bounds: "lo \<le> hi \<Longrightarrow> lo \<le> clamp lo hi v \<and> clamp lo hi v \<le> hi"
  by (simp add: clamp_def)

lemma clamp_inside: "lo \<le> v \<Longrightarrow> v \<le> hi \<Longrightarrow> \<bar>d\<bar> \<le> b \<Longrightarrow> \<bar>clamp lo hi (v + d) - v\<bar> \<le> b"
  unfolding clamp_def by linarith

lemma driftTick_position:
  assumes "\<not> isLanding s" "\<not> isManualMode s"
  shows "currentPosition (driftTick rx ry ra rs s) =
     (clamp 10 790 (fst (currentPosition s) + (rx - 0.5) * 0.5),
      clamp 10 590 (snd (currentPosition s) + (ry - 0.5) * 0.5))"
  using assms by (simp add: driftTick_def Let_def)

lemma driftTick_flags:
  "isLanding (driftTick rx ry ra rs s) = isLanding s"
  "isManualMode (driftTick rx ry ra rs s) = isManualMode s"
  "flightStatus (driftTick rx ry ra rs s) = flightStatus s"
  by (simp_all add: driftTick_def Let_def)


lemma driftTick_viewport:
  assumes "\<not> isLanding s" "\<not> isManualMode s"
  shows "viewport (currentPosition (driftTick rx ry ra rs s))"
proof -
  have x: "10 \<le> clamp 10 790 v \<and> clamp 10 790 v \<le> 790" for v
    by (rule clamp_bounds) simp
  have y: "10 \<le> clamp 10 590 v \<and> clamp 10 590 v \<le> 590" for v
    by (rule clamp_bounds) simp
  show ?thesis
    unfolding viewport_def driftTick_position [OF assms] fst_conv snd_conv
    using x y by blast
qed

lemma drifts_flags:
  "isLanding (run (drifts rs) s) = isLanding s \<and>
   isManualMode (run (drifts rs) s) = isManualMode s \<and>
   flightStatus (run (drifts rs) s) = flightStatus s"
proof (induction rs arbitrary: s)
  case Nil
  show ?case by simp
next
  case (Cons r rs)
  obtain rx ry ra rs' where r: "r = (rx, ry, ra, rs')" by (cases r)
  show ?case
    unfolding r drifts.simps run.simps handle.simps after.simps
    by (simp only: Cons.IH driftTick_flags)
qed

lemma drifts_viewport:
  assumes "\<not> isLanding s" "\<not> isManualMode s"
    and "rs \<noteq> [] \<or> viewport (currentPosition s)"
  shows "viewport (currentPosition (run (drifts rs) s))"
  using assms
proof (induction rs arbitrary: s)
  case Nil
  then show ?case by simp
next
  case (Cons r rs)
  obtain rx ry ra rs' where r: "r = (rx, ry, ra, rs')" by (cases r)
  let ?s = "driftTick rx ry ra rs' s"
  have v: "viewport (currentPosition ?s)"
    by (rule driftTick_viewport [OF Cons.prems(1,2)])
  have f: "\<not> isLanding ?s" "\<not> isManualMode ?s"
    using Cons.prems(1,2) by (simp_all add: driftTick_flags)
  have "viewport (currentPosition (run (drifts rs) ?s))"
    by (rule Cons.IH [OF f disjI2 [OF v]])
  then show ?case
    unfolding r drifts.simps run.simps handle.simps after.simps .
qed

text \<open>
  C8. In a state that is flying, not landing and not manual, a drift tick moves each
  coordinate by an offset of at most 0.5 and then confines it to the viewport
  \<open>[10,790] \<times> [10,590]\<close>: the position is in the viewport after the tick, it has moved by
  at most 0.5 on each axis when it was in the viewport before, and it is in the viewport
  after any run of drift ticks (after at least one, or from a position in the viewport).
  The tick leaves the altitude in \<open>[115,125]\<close> and the speed in \<open>[4.5,6.0]\<close>. In a
  state \<open>s'\<close> whose status is not the flying one the tick writes neither.
\<close>

theorem drift_stays_in_viewport:
  assumes "flightStatus s = Flying" "\<not> isLanding s" "\<not> isManualMode s"
    and "unit_random rx" "unit_random ry" "unit_random ra" "unit_random rs"
  shows "(\<exists>dx dy. \<bar>dx\<bar> \<le> 0.5 \<and> \<bar>dy\<bar> \<le> 0.5 \<and>
            currentPosition (driftTick rx ry ra rs s) =
              (clamp 10 790 (fst (currentPosition s) + dx),
               clamp 10 590 (snd (currentPosition s) + dy))) \<and>
         (viewport (currentPosition s) \<longrightarrow>
            \<bar>fst (currentPosition (driftTick rx ry ra rs s)) - fst (currentPosition s)\<bar> \<le> 0.5 \<and>
            \<bar>snd (currentPosition (driftTick rx ry ra rs s)) - snd (currentPosition s)\<bar> \<le> 0.5) \<and>
         viewport (currentPosition (driftTick rx ry ra rs s)) \<and>
         (rss \<noteq> [] \<or> viewport (currentPosition s) \<longrightarrow>
            viewport (currentPosition (run (drifts rss) s))) \<and>
         115 \<le> altitude (driftTick rx ry ra rs s) \<and> altitude (driftTick rx ry ra rs s) \<le> 125 \<and>
         4.5 \<le> speed (driftTick rx ry ra rs s) \<and> speed (driftTick rx ry ra rs s) \<le> 6.0 \<and>
         (flightStatus s' \<noteq> Flying \<longrightarrow>
            altitude (driftTick rx ry ra rs s') = altitude s' \<and>
            speed (driftTick rx ry ra rs s') = speed s')"
proof -
  let ?s = "driftTick rx ry ra rs s"
  note pos = driftTick_position [OF assms(2,3), of rx ry ra rs]
  have p1: "\<exists>dx dy. \<bar>dx\<bar> \<le> 0.5 \<and> \<bar>dy\<bar> \<le> 0.5 \<and>
            currentPosition ?s =
              (clamp 10 790 (fst (currentPosition s) + dx),
               clamp 10 590 (snd (currentPosition s) + dy))"
    by (rule exI [of _ "(rx - 0.5) * 0.5"], rule exI [of _ "(ry - 0.5) * 0.5"])
      (simp only: pos drift_offset [OF assms(4)] drift_offset [OF assms(5)] simp_thms)
  have p2: "viewport (currentPosition s) \<longrightarrow>
            \<bar>fst (currentPosition ?s) - fst (currentPosition s)\<bar> \<le> 0.5 \<and>
            \<bar>snd (currentPosition ?s) - snd (currentPosition s)\<bar> \<le> 0.5"
  proof
    assume v: "viewport (currentPosition s)"
    from v have "\<bar>clamp 10 790 (fst (currentPosition s) + (rx - 0.5) * 0.5) - fst (currentPosition s)\<bar> \<le> 0.5"
      by (intro clamp_inside drift_offset [OF assms(4)]) (simp_all add: viewport_def)
    moreover from v have "\<bar>clamp 10 590 (snd (currentPosition s) + (ry - 0.5) * 0.5) - snd (currentPosition s)\<bar> \<le> 0.5"
      by (intro clamp_inside drift_offset [OF assms(5)]) (simp_all add: viewport_def)
    ultimately show "\<bar>fst (currentPosition ?s) - fst (currentPosition s)\<bar> \<le> 0.5 \<and>
            \<bar>snd (currentPosition ?s) - snd (currentPosition s)\<bar> \<le> 0.5"
      by (simp only: pos fst_conv snd_conv simp_thms)
  qed
  have p3: "viewport (currentPosition ?s)"
    by (rule driftTick_viewport [OF assms(2,3)])
  have p4: "rss \<noteq> [] \<or> viewport (currentPosition s) \<longrightarrow>
            viewport (currentPosition (run (drifts rss) s))"
    by (rule impI, rule drifts_viewport [OF assms(2,3)])
  have a: "altitude ?s = clamp 115 125 (altitude s + (ra - 0.5) * 0.2)"
    "speed ?s = clamp 4.5 6.0 (speed s + (rs - 0.5) * 0.1)"
    using assms(1-3) by (simp_all add: driftTick_def Let_def)
  have p5: "115 \<le> altitude ?s" "altitude ?s \<le> 125" "4.5 \<le> speed ?s" "speed ?s \<le> 6.0"
    using clamp_bounds [of 115 125] clamp_bounds [of "4.5" "6.0"] by (simp_all add: a)
  have p6: "flightStatus s' \<noteq> Flying \<longrightarrow>
            altitude (driftTick rx ry ra rs s') = altitude s' \<and>
            speed (driftTick rx ry ra rs s') = speed s'"
    by (simp add: driftTick_def Let_def)
  show ?thesis by (intro conjI p1 p2 p3 p4 p5 p6)
qed

theorem drift_stays_in_viewport_witness:
  "flightStatus fresh = Flying \<and> \<not> isLanding fresh \<and> \<not> isManualMode fresh \<and>
   unit_random 0 \<and> viewport (currentPosition fresh) \<and> flightStatus descending \<noteq> Flying \<and>
   viewport (currentPosition (driftTick 0 0 0 0 fresh)) \<and>
   viewport (currentPosition (run (drifts [(0, 0, 0, 0)]) fresh)) \<and>
   115 \<le> altitude (driftTick 0 0 0 0 fresh) \<and>
   altitude (driftTick 0 0 0 0 descending) = altitude descending"
proof -
  have h: "flightStatus fresh = Flying" "\<not> isLanding fresh" "\<not> isManualMode fresh"
    "unit_random 0" "viewport (currentPosition fresh)" "flightStatus descending \<noteq> Flying"
    by (simp_all add: fresh_fields descending_fields unit_random_def viewport_def)
  note t = drift_stays_in_viewport [OF h(1) h(2) h(3) h(4) h(4) h(4) h(4),
      of "[(0, 0, 0, 0)]" descending]
  from t h show ?thesis by simp
qed

subsection \<open>Choosing a target\<close>

text \<open>
  C6, as the claim states it, fails: \<open>selectLandingTarget\<close> has no test of its
  coordinates. A click at \<open>(-5, 9999)\<close>, outside the viewport, is recorded as the
  target; and a click during a takeoff, when the status is not the flying one, is
  recorded too.
\<close>

theorem out_of_bounds_target_recorded:
  "\<not> viewport (- 5, 9999) \<and> selectedTarget fresh = None \<and>
   selectedTarget (after (handle (Click (- 5) 9999) fresh)) = Some (- 5, 9999) \<and>
   flightStatus (takeoff fresh) = TakingOff \<and>
   selectedTarget (after (handle (Click 100 100) (takeoff fresh))) = Some (100, 100)"
  by (simp add: viewport_def sample_defs method_defs Let_def)

text \<open>
  C6, amended. \<open>selectLandingTarget\<close> records the coordinates it is given, whatever they
  are, and enables the landing button. The listener of the overlay drops a click, the
  state unchanged, when the manual mode is on or a landing is in progress, and passes
  every other click to \<open>selectLandingTarget\<close>.
\<close>

theorem click_records_target:
  "selectedTarget (selectLandingTarget x y s) = Some (x, y) \<and>
   \<not> landBtnDisabled (selectLandingTarget x y s) \<and>
   (isManualMode s \<or> isLanding s \<longrightarrow> overlayClick x y s = s) \<and>
   (\<not> isManualMode s \<and> \<not> isLanding s \<longrightarrow> overlayClick x y s = selectLandingTarget x y s)"
  by (simp add: selectLandingTarget_def overlayClick_def updateLandingInfo_def Let_def)

theorem click_records_target_witness:
  "isLanding descending \<and> overlayClick 7 7 descending = descending \<and>
   \<not> isManualMode fresh \<and> \<not> isLanding fresh \<and>
   selectedTarget (overlayClick (- 5) 9999 fresh) = Some (- 5, 9999)"
proof -
  have h: "isLanding descending" "\<not> isManualMode fresh" "\<not> isLanding fresh"
    by (simp_all add: fresh_fields descending_fields)
  from click_records_target [of 7 7 descending] h(1)
  have a: "overlayClick 7 7 descending = descending" by blast
  from click_records_target [of "- 5" 9999 fresh] h(2,3)
  have b: "selectedTarget (overlayClick (- 5) 9999 fresh) = Some (- 5, 9999)" by simp
  from h a b show ?thesis by blast
qed

subsection \<open>Manual mode\<close>

text \<open>
  C7, as the claim states it, fails: \<open>toggleManualMode\<close> writes \<open>flightStatus\<close>, the only
  field that tells taking off, flying and landed apart. Two toggles during a takeoff
  leave the manual flag as it was and the status \<open>flying\<close>; one toggle during a landing
  replaces the landing status by the manual one.
\<close>

theorem toggle_changes_status:
  "flightStatus (takeoff fresh) = TakingOff \<and>
   flightStatus (toggleManualMode (toggleManualMode (takeoff fresh))) = Flying \<and>
   isManualMode (toggleManualMode (toggleManualMode (takeoff fresh))) = isManualMode (takeoff fresh) \<and>
   flightStatus descending = AutoLanding \<and>
   flightStatus (toggleManualMode descending) = ManualStatus"
  by (simp add: fresh_fields descending_fields toggleManualMode_def takeoff_def)

lemma landingTick_toggle:
  "telemetry (after (landingTick k rx ry (toggleManualMode s))) =
   telemetry (after (landingTick k rx ry s))"
  by (simp add: telemetry_def landingTick_def toggleManualMode_def completeLanding_def
      updateLandingInfo_def Let_def split: option.split)

text \<open>
  C7, amended. \<open>toggleManualMode\<close> flips \<open>isManualMode\<close> and, switching the manual mode
  on, sets the status to the manual one. It leaves the position, altitude, speed,
  battery, target, \<open>isLanding\<close> and the timers as they are. While the manual mode is on,
  a click on the overlay and a drift tick change nothing. A descent tick gives the same
  position, altitude, speed, target, \<open>isLanding\<close> and timers after a toggle as without it.
\<close>

theorem toggle_manual_frame:
  "isManualMode (toggleManualMode s) = (\<not> isManualMode s) \<and>
   (\<not> isManualMode s \<longrightarrow> flightStatus (toggleManualMode s) = ManualStatus) \<and>
   telemetry (toggleManualMode s) = telemetry s \<and>
   takeoffTimeouts (toggleManualMode s) = takeoffTimeouts s \<and>
   (isManualMode s \<longrightarrow> overlayClick x y s = s \<and> driftTick rx ry ra rs s = s) \<and>
   telemetry (after (landingTick k rx ry (toggleManualMode s))) =
     telemetry (after (landingTick k rx ry s))"
  by (simp add: landingTick_toggle)
    (simp add: telemetry_def toggleManualMode_def overlayClick_def driftTick_def)


theorem toggle_manual_frame_witness:
  "\<not> isManualMode fresh \<and> flightStatus (toggleManualMode fresh) = ManualStatus \<and>
   isManualMode (toggleManualMode fresh) \<and>
   overlayClick 7 7 (toggleManualMode fresh) = toggleManualMode fresh \<and>
   driftTick 0 0 0 0 (toggleManualMode fresh) = toggleManualMode fresh"
proof -
  have h: "\<not> isManualMode fresh" by (simp add: fresh_fields)
  from toggle_manual_frame [of fresh] h
  have a: "isManualMode (toggleManualMode fresh)"
    "flightStatus (toggleManualMode fresh) = ManualStatus"
    by simp_all
  from toggle_manual_frame [of "toggleManualMode fresh" 7 7 0 0 0 0] a(1)
  have b: "overlayClick 7 7 (toggleManualMode fresh) = toggleManualMode fresh"
    "driftTick 0 0 0 0 (toggleManualMode fresh) = toggleManualMode fresh"
    by simp_all
  from h a b show ?thesis by simp
qed

subsection \<open>Descent\<close>

lemma updateLandingInfo_keeps:
  "selectedTarget (updateLandingInfo s) = selectedTarget s"
  "currentPosition (updateLandingInfo s) = currentPosition s"
  "altitude (updateLandingInfo s) = altitude s"
  "speed (updateLandingInfo s) = speed s"
  "battery (updateLandingInfo s) = battery s"
  "flightStatus (updateLandingInfo s) = flightStatus s"
  "isLanding (updateLandingInfo s) = isLanding s"
  "isManualMode (updateLandingInfo s) = isManualMode s"
  "landingIntervals (updateLandingInfo s) = landingIntervals s"
  "takeoffTimeouts (updateLandingInfo s) = takeoffTimeouts s"
  by (simp_all add: updateLandingInfo_def Let_def split: option.split)

text \<open>A tick that is not the last one of its timer.\<close>

lemma landingTick_descend:
  assumes k: "k < length (landingIntervals s)"
    and n: "Suc (landingIntervals s ! k) < 100"
    and t: "selectedTarget s = Some t"
  shows "\<exists>s'. landingTick k rx ry s = Returned s' \<and>
      landingIntervals s' = (landingIntervals s)[k := Suc (landingIntervals s ! k)] \<and>
      selectedTarget s' = Some t \<and>
      isLanding s' = isLanding s \<and>
      flightStatus s' = flightStatus s \<and>
      altitude s' = 120 - real (Suc (landingIntervals s ! k)) * 1.2 \<and>
      speed s' = 5.2 - real (Suc (landingIntervals s ! k)) * 0.02 \<and>
      currentPosition s' =
        (fst (currentPosition s) +
           (fst t - fst (currentPosition s)) / real (100 - Suc (landingIntervals s ! k)) +
           (rx - 0.5) * 2,
         snd (currentPosition s) +
           (snd t - snd (currentPosition s)) / real (100 - Suc (landingIntervals s ! k)) +
           (ry - 0.5) * 2)"
  using k n t
  by (simp add: landingTick_def landingSteps_def Let_def updateLandingInfo_keeps)

text \<open>A tick that finds no target.\<close>

lemma landingTick_throws:
  assumes k: "k < length (landingIntervals s)"
    and n: "Suc (landingIntervals s ! k) < 100"
    and t: "selectedTarget s = None"
  shows "landingTick k rx ry s =
     Threw TypeError
       (s\<lparr> landingIntervals := (landingIntervals s)[k := Suc (landingIntervals s ! k)],
           altitude := 120 - real (Suc (landingIntervals s ! k)) * 1.2,
           speed := 5.2 - real (Suc (landingIntervals s ! k)) * 0.02 \<rparr>)"
  using k n t by (simp add: landingTick_def landingSteps_def Let_def)

text \<open>The last tick of a timer.\<close>

lemma landingTick_complete:
  assumes k: "k < length (landingIntervals s)"
    and n: "100 \<le> Suc (landingIntervals s ! k)"
  shows "landingTick k rx ry s =
     Returned ((completeLanding s)\<lparr> landingIntervals := clearInterval k (landingIntervals s) \<rparr>)"
  using k n by (simp add: landingTick_def landingSteps_def Let_def)

lemma completeLanding_fields:
  "altitude (completeLanding s) = 0"
  "speed (completeLanding s) = 0"
  "flightStatus (completeLanding s) = Landed"
  "\<not> isLanding (completeLanding s)"
  "selectedTarget (completeLanding s) = None"
  "currentPosition (completeLanding s) = currentPosition s"
  "battery (completeLanding s) = battery s"
  by (simp_all add: completeLanding_def updateLandingInfo_keeps)


lemma ticks_descend:
  assumes "k < length (landingIntervals s)"
    and "landingIntervals s ! k + length rs \<le> 99"
    and "selectedTarget s = Some t"
  shows "landingIntervals (run (ticks k rs) s) =
           (landingIntervals s)[k := landingIntervals s ! k + length rs] \<and>
         selectedTarget (run (ticks k rs) s) = Some t \<and>
         isLanding (run (ticks k rs) s) = isLanding s \<and>
         flightStatus (run (ticks k rs) s) = flightStatus s \<and>
         (rs \<noteq> [] \<longrightarrow>
            altitude (run (ticks k rs) s) =
              120 - real (landingIntervals s ! k + length rs) * 1.2 \<and>
            speed (run (ticks k rs) s) =
              5.2 - real (landingIntervals s ! k + length rs) * 0.02) \<and>
         (rs \<noteq> [] \<and> landingIntervals s ! k + length rs = 99 \<longrightarrow>
            currentPosition (run (ticks k rs) s) =
              (fst t + (fst (last rs) - 0.5) * 2, snd t + (snd (last rs) - 0.5) * 2))"
  using assms
proof (induction rs arbitrary: s)
  case Nil
  then show ?case by simp
next
  case (Cons r rs)
  obtain rx ry where r: "r = (rx, ry)" by (cases r)
  let ?n = "landingIntervals s ! k"
  from Cons.prems(2) have n: "Suc ?n < 100" by simp
  from landingTick_descend [OF Cons.prems(1) n Cons.prems(3), of rx ry]
  obtain s1 where s1: "landingTick k rx ry s = Returned s1"
    and ints: "landingIntervals s1 = (landingIntervals s)[k := Suc ?n]"
    and tgt: "selectedTarget s1 = Some t"
    and lnd: "isLanding s1 = isLanding s"
    and sts: "flightStatus s1 = flightStatus s"
    and alt: "altitude s1 = 120 - real (Suc ?n) * 1.2"
    and spd: "speed s1 = 5.2 - real (Suc ?n) * 0.02"
    and pos: "currentPosition s1 =
        (fst (currentPosition s) + (fst t - fst (currentPosition s)) / real (100 - Suc ?n) +
           (rx - 0.5) * 2,
         snd (currentPosition s) + (snd t - snd (currentPosition s)) / real (100 - Suc ?n) +
           (ry - 0.5) * 2)"
    by blast
  have run1: "run (ticks k (r # rs)) s = run (ticks k rs) s1"
    by (simp add: r s1)
  have k1: "k < length (landingIntervals s1)"
    using Cons.prems(1) by (simp add: ints)
  have n1: "landingIntervals s1 ! k = Suc ?n"
    using Cons.prems(1) by (simp add: ints)
  have b1: "landingIntervals s1 ! k + length rs \<le> 99"
    using Cons.prems(2) by (simp add: n1)
  note ih = Cons.IH [OF k1 b1 tgt]
  show ?case
  proof (cases "rs = []")
    case True
    have p99: "Suc ?n = 99 \<longrightarrow>
        currentPosition s1 = (fst t + (rx - 0.5) * 2, snd t + (ry - 0.5) * 2)"
      by (simp add: pos)
    show ?thesis
      unfolding run1 using p99
      by (simp add: True r ints tgt lnd sts alt spd)
  next
    case False
    have lu: "(landingIntervals s)[k := Suc ?n, k := Suc ?n + length rs] =
        (landingIntervals s)[k := ?n + length (r # rs)]"
      by simp
    note ih1 = ih [unfolded n1]
    note ih2 = ih1 [unfolded ints lnd sts lu]
    from ih2 False show ?thesis
      unfolding run1 by simp
  qed
qed


lemma ticks_append: "ticks k (xs @ ys) = ticks k xs @ ticks k ys"
  by (induction xs) auto

lemma clearInterval_update: "clearInterval k (ts[k := v]) = clearInterval k ts"
  by (simp add: clearInterval_def)

lemma clearInterval_last: "clearInterval (length ts) (ts @ [v]) = ts"
  by (simp add: clearInterval_def)

lemma completeLanding_eta:
  assumes "selectedTarget s = Some t"
  shows "infoEta (completeLanding s) =
     (if 0 < distance t (currentPosition s) then Seconds PosInfinity else Dashes)"
  using assms by (simp add: completeLanding_def updateLandingInfo_def js_div_def Let_def)

text \<open>A timer that is let run to its hundredth step lands the vehicle, whether or
  not a landing is in progress.\<close>

lemma ticks_land:
  assumes k: "k < length (landingIntervals s)"
    and n: "landingIntervals s ! k + length rs = 100"
    and two: "2 \<le> length rs"
    and t: "selectedTarget s = Some t"
  shows "altitude (run (ticks k rs) s) = 0"
    and "speed (run (ticks k rs) s) = 0"
    and "flightStatus (run (ticks k rs) s) = Landed"
    and "\<not> isLanding (run (ticks k rs) s)"
    and "selectedTarget (run (ticks k rs) s) = None"
    and "landingIntervals (run (ticks k rs) s) = clearInterval k (landingIntervals s)"
    and "currentPosition (run (ticks k rs) s) =
           (fst t + (fst (last (butlast rs)) - 0.5) * 2,
            snd t + (snd (last (butlast rs)) - 0.5) * 2)"
    and "infoEta (run (ticks k rs) s) =
           (if 0 < distance t (currentPosition (run (ticks k rs) s))
            then Seconds PosInfinity else Dashes)"
proof -
  let ?xs = "butlast rs"
  obtain rx ry where l: "last rs = (rx, ry)" by (cases "last rs")
  from two have ne: "rs \<noteq> []" by auto
  then have rs: "rs = ?xs @ [(rx, ry)]"
    using l append_butlast_last_id [of rs] by simp
  let ?s = "run (ticks k ?xs) s"
  have len: "landingIntervals s ! k + length ?xs = 99"
    using n two by (simp add: length_butlast)
  then have le: "landingIntervals s ! k + length ?xs \<le> 99" by simp
  have xne: "?xs \<noteq> []"
    using two by (cases rs rule: rev_cases) auto
  note d = ticks_descend [OF k le t, unfolded len]
  from d have ints: "landingIntervals ?s = (landingIntervals s)[k := 99]"
    by (rule conjunct1)
  from d have tgt: "selectedTarget ?s = Some t"
    by (elim conjE)
  from d xne have pos: "currentPosition ?s =
      (fst t + (fst (last ?xs) - 0.5) * 2, snd t + (snd (last ?xs) - 0.5) * 2)"
    by (elim conjE) simp
  have k': "k < length (landingIntervals ?s)"
    using k by (simp add: ints)
  have n': "100 \<le> Suc (landingIntervals ?s ! k)"
    using k by (simp add: ints)
  have "run (ticks k rs) s = run (ticks k [(rx, ry)]) ?s"
    using rs ticks_append [of k ?xs "[(rx, ry)]"] run_append [of "ticks k ?xs"] by simp
  then have fin: "run (ticks k rs) s =
      (completeLanding ?s)\<lparr> landingIntervals := clearInterval k (landingIntervals ?s) \<rparr>"
    by (simp add: landingTick_complete [OF k' n'])
  show "altitude (run (ticks k rs) s) = 0"
    and "speed (run (ticks k rs) s) = 0"
    and "flightStatus (run (ticks k rs) s) = Landed"
    and "\<not> isLanding (run (ticks k rs) s)"
    and "selectedTarget (run (ticks k rs) s) = None"
    by (simp_all add: fin completeLanding_fields)
  show "landingIntervals (run (ticks k rs) s) = clearInterval k (landingIntervals s)"
    by (simp add: fin ints clearInterval_update)
  have p: "currentPosition (run (ticks k rs) s) = currentPosition ?s"
    by (simp add: fin completeLanding_fields)
  show "currentPosition (run (ticks k rs) s) =
           (fst t + (fst (last (butlast rs)) - 0.5) * 2,
            snd t + (snd (last (butlast rs)) - 0.5) * 2)"
    unfolding p pos ..
  show "infoEta (run (ticks k rs) s) =
           (if 0 < distance t (currentPosition (run (ticks k rs) s))
            then Seconds PosInfinity else Dashes)"
    unfolding p by (simp add: fin completeLanding_eta [OF tgt])
qed

lemma jitter_bound: "unit_random r \<Longrightarrow> \<bar>(r - 0.5) * 2\<bar> \<le> 1"
  by (simp add: unit_random_def abs_le_iff)

text \<open>While a landing is in progress the clicks, \<open>takeoff\<close>, \<open>startLanding\<close> and the drift
  tick leave the state as it is, so that they do not disturb a descent.\<close>

lemma landing_ignores:
  assumes "isLanding s"
  shows "handle (Click x y) s = Returned s"
    and "handle TakeoffCmd s = Returned s"
    and "handle LandCmd s = Returned s"
    and "handle (DriftTick rx ry ra rs) s = Returned s"
  using assms by (simp_all add: overlayClick_def takeoff_def startLanding_def driftTick_def)

lemma startLanding_fields:
  assumes "selectedTarget s = Some t" "\<not> isLanding s"
  shows "landingIntervals (startLanding s) = landingIntervals s @ [0]"
    and "selectedTarget (startLanding s) = Some t"
    and "isLanding (startLanding s)"
    and "flightStatus (startLanding s) = AutoLanding"
  using assms by (simp_all add: startLanding_def)

lemma targeted_fields:
  "selectedTarget targeted = Some (100, 100)" "\<not> isLanding targeted"
  "landingIntervals targeted = []" "currentPosition targeted = (400, 300)"
  "speed targeted = 5.2" "flightStatus targeted = Flying"
  by (simp_all add: targeted_def sample_defs method_defs Let_def)

text \<open>
  C3. From a state with a target \<open>t\<close> and no landing in progress, \<open>startLanding\<close>
  followed by 100 ticks of the timer it starts ends with altitude 0, speed 0, the
  status \<open>landed\<close>, no landing in progress, no target, and the position within 1 of \<open>t\<close>
  on each axis, which is the jitter of one tick; the timer is cleared. After any
  smaller number \<open>n\<close> of ticks the landing is still in progress, with the landing
  status, the target \<open>t\<close> and the step counter \<open>n\<close>: the vehicle becomes landed at the
  hundredth tick and not before.
\<close>

theorem descent_completes:
  assumes t: "selectedTarget s = Some t"
    and l: "\<not> isLanding s"
    and len: "length rs = 100"
    and u: "\<forall>r\<in>set rs. unit_random (fst r) \<and> unit_random (snd r)"
  shows "altitude (descent s rs) = 0 \<and>
         speed (descent s rs) = 0 \<and>
         flightStatus (descent s rs) = Landed \<and>
         \<not> isLanding (descent s rs) \<and>
         selectedTarget (descent s rs) = None \<and>
         \<bar>fst (currentPosition (descent s rs)) - fst t\<bar> \<le> 1 \<and>
         \<bar>snd (currentPosition (descent s rs)) - snd t\<bar> \<le> 1 \<and>
         landingIntervals (descent s rs) = landingIntervals s \<and>
         (\<forall>n<100.
            isLanding (descent s (take n rs)) \<and>
            flightStatus (descent s (take n rs)) = AutoLanding \<and>
            selectedTarget (descent s (take n rs)) = Some t \<and>
            landingIntervals (descent s (take n rs)) = landingIntervals s @ [n])"
proof -
  let ?k = "length (landingIntervals s)"
  let ?s = "startLanding s"
  note st = startLanding_fields [OF t l]
  have d: "descent s xs = run (ticks ?k xs) ?s" for xs
    by (simp add: descent_def)
  have k: "?k < length (landingIntervals ?s)"
    by (simp add: st)
  have z: "landingIntervals ?s ! ?k = 0"
    by (simp add: st)
  have n: "landingIntervals ?s ! ?k + length rs = 100"
    by (simp add: z len)
  have two: "2 \<le> length rs"
    by (simp add: len)
  note fin = ticks_land [OF k n two st(2)]
  have "butlast rs \<noteq> []"
    using len by (cases rs rule: rev_cases) auto
  then have "last (butlast rs) \<in> set rs"
    using last_in_set in_set_butlastD by metis
  with u have j: "unit_random (fst (last (butlast rs)))" "unit_random (snd (last (butlast rs)))"
    by blast+
  have px: "\<bar>fst (currentPosition (descent s rs)) - fst t\<bar> \<le> 1"
    using jitter_bound [OF j(1)] by (simp add: d fin(7))
  have py: "\<bar>snd (currentPosition (descent s rs)) - snd t\<bar> \<le> 1"
    using jitter_bound [OF j(2)] by (simp add: d fin(7))
  have ints: "landingIntervals (descent s rs) = landingIntervals s"
    by (simp add: d fin(6) st(1) clearInterval_last)
  have before: "isLanding (descent s (take m rs)) \<and>
            flightStatus (descent s (take m rs)) = AutoLanding \<and>
            selectedTarget (descent s (take m rs)) = Some t \<and>
            landingIntervals (descent s (take m rs)) = landingIntervals s @ [m]"
    if m: "m < 100" for m
  proof -
    have lm: "length (take m rs) = m"
      using m len by simp
    have le: "landingIntervals ?s ! ?k + length (take m rs) \<le> 99"
      using m by (simp add: z lm)
    note dm = ticks_descend [OF k le st(2), unfolded z lm]
    from dm show ?thesis
      by (simp add: d st)
  qed
  show ?thesis
    using fin(1-5) px py ints before by (simp add: d)
qed

theorem descent_completes_witness:
  "selectedTarget targeted = Some (100, 100) \<and> \<not> isLanding targeted \<and> length steady = 100 \<and>
   set steady = {(1 / 2, 1 / 2)} \<and> unit_random (1 / 2) \<and>
   altitude (descent targeted steady) = 0 \<and>
   speed (descent targeted steady) = 0 \<and>
   flightStatus (descent targeted steady) = Landed \<and>
   selectedTarget (descent targeted steady) = None \<and>
   \<bar>fst (currentPosition (descent targeted steady)) - 100\<bar> \<le> 1 \<and>
   isLanding (descent targeted (take 99 steady)) \<and>
   flightStatus (descent targeted (take 99 steady)) = AutoLanding"
proof -
  have h: "selectedTarget targeted = Some (100, 100)" "\<not> isLanding targeted"
    "length steady = 100" "set steady = {(1 / 2, 1 / 2)}" "unit_random (1 / 2)"
    by (simp_all add: targeted_fields steady_def unit_random_def)
  have u: "\<forall>r\<in>set steady. unit_random (fst r) \<and> unit_random (snd r)"
    by (simp add: h(4,5))
  note w = descent_completes [OF h(1) h(2) h(3) u]
  from w have "isLanding (descent targeted (take 99 steady)) \<and>
      flightStatus (descent targeted (take 99 steady)) = AutoLanding"
    by simp
  with w h show ?thesis by simp
qed

subsection \<open>Cancelling does not stop the descent timer\<close>

lemma cancelled_fields:
  "\<not> isLanding cancelled"
  "flightStatus cancelled = Flying"
  "landingIntervals cancelled = [1]"
  "selectedTarget cancelled = Some (100, 100)"
  "altitude cancelled = 118.8"
  "speed cancelled = 5.18"
  "currentPosition cancelled = (13100 / 33, 29500 / 99)"
  by (simp_all add: cancelled_def sample_defs method_defs landingSteps_def Let_def)

text \<open>
  C1 does not hold of the code. \<open>cancelLanding\<close> sets \<open>isLanding\<close> to false and the
  status to \<open>flying\<close>, but it does not clear the interval that \<open>simulateLanding\<close>
  started; only the completion of the descent does. In the state \<open>cancelled\<close>, reached
  by choosing a target, starting the landing, one tick and the cancel, the timer is
  still live at step 1. Its next tick lowers the altitude from 118.8 to 117.6 and the
  speed from 5.18 to 5.16 and moves the position; 99 ticks after the cancel it lands
  the vehicle. A \<open>startLanding\<close> after the cancel adds a second timer beside it; the
  old timer then ends the new landing at its own hundredth step, clearing the target,
  and the next tick of the new timer throws on the missing target.
\<close>

theorem cancelled_descent_goes_on:
  "\<not> isLanding cancelled \<and> flightStatus cancelled = Flying \<and>
   landingIntervals cancelled = [1] \<and>
   altitude cancelled = 118.8 \<and> speed cancelled = 5.18 \<and>
   currentPosition cancelled = (13100 / 33, 29500 / 99) \<and>
   altitude (after (handle (LandingTick 0 (1 / 2) (1 / 2)) cancelled)) = 117.6 \<and>
   speed (after (handle (LandingTick 0 (1 / 2) (1 / 2)) cancelled)) = 5.16 \<and>
   currentPosition (after (handle (LandingTick 0 (1 / 2) (1 / 2)) cancelled)) =
     (13000 / 33, 29300 / 99) \<and>
   flightStatus (run (ticks 0 (replicate 99 (1 / 2, 1 / 2))) cancelled) = Landed \<and>
   altitude (run (ticks 0 (replicate 99 (1 / 2, 1 / 2))) cancelled) = 0 \<and>
   landingIntervals (after (handle LandCmd cancelled)) = [1, 0] \<and>
   \<not> isLanding (run (LandCmd # ticks 0 (replicate 99 (1 / 2, 1 / 2))) cancelled) \<and>
   landingIntervals (run (LandCmd # ticks 0 (replicate 99 (1 / 2, 1 / 2))) cancelled) = [0] \<and>
   threw (handle (LandingTick 0 (1 / 2) (1 / 2))
            (run (LandCmd # ticks 0 (replicate 99 (1 / 2, 1 / 2))) cancelled))"
proof -
  let ?rs = "replicate 99 (1 / 2 :: real, 1 / 2 :: real)"
  let ?s = "startLanding cancelled"
  note st = startLanding_fields [OF cancelled_fields(4,1)]
  have k2: "0 < length (landingIntervals ?s)"
    and n2: "landingIntervals ?s ! 0 + length ?rs = 100"
    and two2: "2 \<le> length ?rs"
    by (simp_all add: st cancelled_fields)
  note fin2 = ticks_land [OF k2 n2 two2 st(2)]
  have r2: "run (LandCmd # ticks 0 ?rs) cancelled = run (ticks 0 ?rs) ?s"
    by simp
  have ints2: "landingIntervals (run (ticks 0 ?rs) ?s) = [0]"
    by (simp add: fin2(6) st(1) cancelled_fields clearInterval_def)
  have k3: "0 < length (landingIntervals (run (ticks 0 ?rs) ?s))"
    and n3: "Suc (landingIntervals (run (ticks 0 ?rs) ?s) ! 0) < 100"
    by (simp_all add: ints2)
  have thr: "threw (handle (LandingTick 0 (1 / 2) (1 / 2)) (run (LandCmd # ticks 0 ?rs) cancelled))"
    unfolding r2 by (simp add: landingTick_throws [OF k3 n3 fin2(5)])
  have k: "0 < length (landingIntervals cancelled)"
    and n: "landingIntervals cancelled ! 0 + length (replicate 99 (1 / 2 :: real, 1 / 2 :: real)) = 100"
    and two: "2 \<le> length (replicate 99 (1 / 2 :: real, 1 / 2 :: real))"
    by (simp_all add: cancelled_fields)
  note fin = ticks_land [OF k n two cancelled_fields(4)]
  have tick: "altitude (after (handle (LandingTick 0 (1 / 2) (1 / 2)) cancelled)) = 117.6"
    "speed (after (handle (LandingTick 0 (1 / 2) (1 / 2)) cancelled)) = 5.16"
    "currentPosition (after (handle (LandingTick 0 (1 / 2) (1 / 2)) cancelled)) =
       (13000 / 33, 29300 / 99)"
    by (simp_all add: landingTick_def landingSteps_def Let_def cancelled_fields)
  have again: "landingIntervals (after (handle LandCmd cancelled)) = [1, 0]"
    by (simp add: startLanding_def cancelled_fields)
  show ?thesis
    by (intro conjI cancelled_fields(1,2,3,5,6,7) tick fin(1,3) again
        fin2(4) [folded r2] ints2 [folded r2] thr)
qed

subsection \<open>Estimated time of arrival\<close>

text \<open>With a target and a positive speed the text is the rounded quotient of the
  distance by the speed, as for the distance 100 at the speed 10, or the dashes when
  the distance is 0.\<close>

lemma eta_when_moving:
  assumes "selectedTarget s = Some t" "0 < speed s"
  shows "infoEta (updateLandingInfo s) =
     (if 0 < distance t (currentPosition s)
      then Seconds (Num (of_int (round_half_up (distance t (currentPosition s) / speed s))))
      else Dashes)"
  using assms
  by (simp add: updateLandingInfo_def js_div_def Let_def zero_less_divide_iff)

lemma eta_example:
  "infoEta (updateLandingInfo
      (s\<lparr> selectedTarget := Some (500, 300), currentPosition := (400, 300), speed := 10 \<rparr>)) =
   Seconds (Num 10)"
  by (simp add: updateLandingInfo_def js_div_def distance_def round_half_up_def Let_def)

lemma distance_sample: "0 < distance (100, 100) (99, 99)"
  by (simp add: distance_def)

text \<open>
  C2 does not hold of the code at the speed 0. The quotient of a positive distance by
  0 is \<open>Infinity\<close>, which passes the test \<open>eta > 0\<close>, and the text becomes \<open>Infinitys\<close>
  instead of the dashes. The speed is 0 with a target still set when \<open>completeLanding\<close>
  calls \<open>updateLandingInfo\<close>: a descent to \<open>(100, 100)\<close> whose random numbers are all 0
  ends at \<open>(99, 99)\<close> and shows that text. The same text results when
  \<open>updateLandingInfo\<close> runs in the state \<open>targeted\<close> with the speed set to 0.
\<close>

theorem eta_of_stopped_vehicle:
  "speed (descent targeted (replicate 100 (0, 0))) = 0 \<and>
   currentPosition (descent targeted (replicate 100 (0, 0))) = (99, 99) \<and>
   infoEta (descent targeted (replicate 100 (0, 0))) = Seconds PosInfinity \<and>
   infoEta (updateLandingInfo (targeted\<lparr> speed := 0 \<rparr>)) = Seconds PosInfinity"
proof -
  let ?rs = "replicate 100 (0 :: real, 0 :: real)"
  let ?s = "startLanding targeted"
  note st = startLanding_fields [OF targeted_fields(1,2)]
  have d: "descent targeted ?rs = run (ticks 0 ?rs) ?s"
    by (simp add: descent_def targeted_fields)
  have k: "0 < length (landingIntervals ?s)"
    and n: "landingIntervals ?s ! 0 + length ?rs = 100"
    and two: "2 \<le> length ?rs"
    by (simp_all add: st targeted_fields)
  note fin = ticks_land [OF k n two st(2)]
  have lb: "last (butlast ?rs) = (0, 0)"
    by (simp add: butlast_conv_take)
  have pos: "currentPosition (descent targeted ?rs) = (99, 99)"
    unfolding d fin(7) lb by simp
  have eta: "infoEta (descent targeted ?rs) = Seconds PosInfinity"
    using distance_sample by (simp add: fin(8) [folded d] pos)
  have direct: "infoEta (updateLandingInfo (targeted\<lparr> speed := 0 \<rparr>)) = Seconds PosInfinity"
    by (simp add: updateLandingInfo_def js_div_def distance_def Let_def targeted_fields)
  show ?thesis
    by (intro conjI fin(2) [folded d] pos eta direct)
qed

end
